theory Spec2Isabelle
  imports Main
begin

section \<open>Data model\<close>

text \<open>
  The withdrawal script works on JavaScript BigInts (unbounded integers), arrays and a few
  plain objects. BigInts are \<open>int\<close>, array indices are \<open>nat\<close>, and a value that may be
  \<open>undefined\<close> (an array read out of range, an optional property) is an \<open>option\<close>.
\<close>

type_synonym BigInt = int

type_synonym Point = "BigInt \<times> BigInt"

text \<open>
  Modelled from the spec: the class \<open>Leaf\<close> (file \<open>./Leaf\<close>) is not among the sources.
  The spec's DepositRecord has the fields \<open>maskedPoint1\<close> (P), \<open>maskedPoint2\<close> (Q) and
  \<open>value\<close> (v); \<open>genGroth16Proof\<close> reads exactly \<open>P\<close>, \<open>Q\<close> and \<open>v\<close> of \<open>lf.base10()\<close>.
\<close>

record Leaf =
  lf_P :: Point
  lf_Q :: Point
  lf_v :: BigInt

text \<open>The Solidity struct carried by a \<open>NewLeaf\<close> event (P, Q, v), as the ABI declares it.\<close>

type_synonym SolLeaf = "Point \<times> Point \<times> BigInt"

text \<open>An ethers event; \<open>args_lf\<close> is the value of \<open>e.args?.lf\<close>, \<open>None\<close> when it is undefined.\<close>

record Event =
  args_lf :: "SolLeaf option"

text \<open>Modelled from the spec: the types of \<open>./types\<close> are not among the sources; a proof and
  its public signals are opaque vectors of field elements, the call data is the
  three-part layout (a, b, c) plus the public-signal vector.\<close>

type_synonym Groth16Proof = "BigInt list"

type_synonym WithdrawPubSignals = "BigInt list"

type_synonym VKey = "BigInt list"

record Groth16ProofCalldata =
  cd_a :: "BigInt list"
  cd_b :: "BigInt list list"
  cd_c :: "BigInt list"
  cd_input :: "BigInt list"

text \<open>The object returned by \<open>genMerklePath\<close>: the script reads its fields \<open>indices\<close> and
  \<open>pathElements\<close>. Level \<open>l\<close> of \<open>pathElements\<close> holds the sibling hashes of that level
  (one sibling when the tree is binary), \<open>indices\<close> the branch selector of that level.\<close>

record MerkleProof =
  pathElements :: "BigInt list list"
  indices :: "nat list"

text \<open>The witness object handed to \<open>groth16.fullProve\<close>, field by field.\<close>

record ProveInput =
  pi_v :: BigInt
  pi_root :: BigInt
  pi_leafIndex :: "nat option"
  pi_P :: Point
  pi_Q :: Point
  pi_treasuryPriv :: string
  pi_pathIndex :: "nat list"
  pi_pathElements :: "BigInt list list"

text \<open>
  Exceptions. The script has no \<open>throw\<close> of its own: a run aborts when an awaited external
  call rejects (\<open>Thrown\<close>, with the collaborator's message) or when JavaScript itself raises
  on a method call on \<open>undefined\<close> (\<open>TypeError\<close>).
\<close>

datatype error = TypeError | Thrown string

section \<open>Observable actions\<close>

datatype logval = LStr string | LInt int | LNat nat | LBool bool | LVec "BigInt list"
  | LCalldata Groth16ProofCalldata | LTxResult

text \<open>
  The actions of a run, in order: console output, the two read-only contract queries, the
  balance query, the call of the accumulator's path generation, the proving engine, the
  file read of the verification key, the verifier, the one state-mutating contract call
  and the process exit.
\<close>

datatype call =
    ConsoleLog "logval list"
  | QueryFilter_NewLeaf
  | Contract_root
  | Signer_getBalance
  | GenMerklePath "nat option"
  | FullProve ProveInput string string
  | ReadFileSync string
  | Groth16_verify VKey WithdrawPubSignals Groth16Proof
  | Contract_withdraw nat "BigInt list" "BigInt list list" "BigInt list" "BigInt list"
  | ProcessExit nat

fun is_withdraw :: "call \<Rightarrow> bool" where
  "is_withdraw (Contract_withdraw i a b c inp) = True"
| "is_withdraw _ = False"

fun is_fullProve :: "call \<Rightarrow> bool" where
  "is_fullProve (FullProve inp wasm zkey) = True"
| "is_fullProve _ = False"

fun is_genMerklePath :: "call \<Rightarrow> bool" where
  "is_genMerklePath (GenMerklePath i) = True"
| "is_genMerklePath _ = False"

fun is_contract_call :: "call \<Rightarrow> bool" where
  "is_contract_call QueryFilter_NewLeaf = True"
| "is_contract_call Contract_root = True"
| "is_contract_call (Contract_withdraw i a b c inp) = True"
| "is_contract_call _ = False"

text \<open>The world a run acts on: the external ledger's state and the actions so far.\<close>

record 'l world =
  ledger :: 'l
  trace :: "call list"

text \<open>
  The collaborators of the script, none of which is among the sources: the contract
  (\<open>privateTreasury\<close>, \<open>signer\<close>), the methods of \<open>Leaf\<close> and \<open>Utils\<close>, the process
  environment, the constants and the hash of \<open>maci-crypto\<close>, \<open>snarkjs\<close> and the file system.
  Each is a parameter. A call over the network or to the prover may reject; the contract's
  answers depend on the ledger state, and only \<open>withdraw\<close> can change it.
\<close>

record 'l env =
  queryFilter_NewLeaf :: "'l \<Rightarrow> error + Event list"
  contract_root :: "'l \<Rightarrow> error + BigInt"
  contract_withdraw :: "nat \<Rightarrow> Groth16ProofCalldata \<Rightarrow> 'l \<Rightarrow> error + 'l"
  signer_getBalance :: "'l \<Rightarrow> error + BigInt"
  Leaf_fromSol :: "SolLeaf option \<Rightarrow> Leaf"
  Leaf_poseidonHash :: "Leaf \<Rightarrow> BigInt"
  Leaf_checkQDerivation :: "Leaf \<Rightarrow> string \<Rightarrow> bool"
  TREASURY_PRIVKEY :: string
  NOTHING_UP_MY_SLEEVE :: BigInt
  hashFunc :: "BigInt list \<Rightarrow> BigInt"
  genMerklePath_undefined :: "nat option \<Rightarrow> error + MerkleProof"
  groth16_fullProve :: "ProveInput \<Rightarrow> string \<Rightarrow> string \<Rightarrow> error + (Groth16Proof \<times> WithdrawPubSignals)"
  readFile_vKey :: "string \<Rightarrow> error + VKey"
  groth16_verify :: "VKey \<Rightarrow> WithdrawPubSignals \<Rightarrow> Groth16Proof \<Rightarrow> error + bool"
  Utils_exportCallDataGroth16 :: "Groth16Proof \<Rightarrow> WithdrawPubSignals \<Rightarrow> error + Groth16ProofCalldata"

section \<open>Sequencing: state passing with exceptions\<close>

type_synonym ('l, 'a) io = "'l world \<Rightarrow> (error + 'a) \<times> 'l world"

definition io_return :: "'a \<Rightarrow> ('l, 'a) io" where
  "io_return a w = (Inr a, w)"

definition io_throw :: "error \<Rightarrow> ('l, 'a) io" where
  "io_throw e w = (Inl e, w)"

definition io_bind :: "('l, 'a) io \<Rightarrow> ('a \<Rightarrow> ('l, 'b) io) \<Rightarrow> ('l, 'b) io" where
  "io_bind m f w = (case m w of (Inl e, w') \<Rightarrow> (Inl e, w') | (Inr a, w') \<Rightarrow> f a w')"

definition emit :: "call \<Rightarrow> ('l, unit) io" where
  "emit c w = (Inr (), w\<lparr>trace := trace w @ [c]\<rparr>)"

definition console_log :: "logval list \<Rightarrow> ('l, unit) io" where
  "console_log vals = emit (ConsoleLog vals)"

text \<open>An awaited read-only call: the action is recorded, the answer is the collaborator's.\<close>

definition await_read :: "call \<Rightarrow> ('l \<Rightarrow> error + 'a) \<Rightarrow> ('l, 'a) io" where
  "await_read c q w = (q (ledger w), w\<lparr>trace := trace w @ [c]\<rparr>)"

text \<open>A call to a collaborator that does not look at the ledger (the prover, the file
  system, the accumulator library).\<close>

definition await_ext :: "call \<Rightarrow> (error + 'a) \<Rightarrow> ('l, 'a) io" where
  "await_ext c r w = (r, w\<lparr>trace := trace w @ [c]\<rparr>)"

text \<open>The state-mutating call: on success the ledger is the one the contract returns, on
  a revert it is unchanged.\<close>

definition await_write :: "call \<Rightarrow> ('l \<Rightarrow> error + 'l) \<Rightarrow> ('l, unit) io" where
  "await_write c tx w =
     (case tx (ledger w) of
        Inl e \<Rightarrow> (Inl e, w\<lparr>trace := trace w @ [c]\<rparr>)
      | Inr l' \<Rightarrow> (Inr (), w\<lparr>ledger := l', trace := trace w @ [c]\<rparr>))"

section \<open>Constants of the script\<close>

definition LEAF_IDX :: nat where
  "LEAF_IDX = 1"

definition TREE_DEPTH :: nat where
  "TREE_DEPTH = 32"

definition PROV_KEY :: string where
  "PROV_KEY = ''../circuits/verif-manager.zkey''"

definition VERIF_KEY :: string where
  "VERIF_KEY = ''../circuits/verif-manager.vkey.json''"

definition WASM :: string where
  "WASM = ''../circuits/verif-manager.wasm''"

text \<open>A JavaScript array read \<open>xs[i]\<close>: \<open>undefined\<close> out of range, and \<open>undefined\<close> when
  the index itself is \<open>undefined\<close>.\<close>

definition js_index :: "'a list \<Rightarrow> nat \<Rightarrow> 'a option" where
  "js_index xs i = (if i < length xs then Some (xs ! i) else None)"

definition js_index_opt :: "'a list \<Rightarrow> nat option \<Rightarrow> 'a option" where
  "js_index_opt xs io = (case io of None \<Rightarrow> None | Some i \<Rightarrow> js_index xs i)"

section \<open>The accumulator\<close>

text \<open>
  Modelled from the spec: the class \<open>IncrementalQuinTree\<close> is imported from \<open>maci-crypto\<close>
  and is not among the sources; only its calls are (\<open>new\<close>, \<open>insert\<close>, \<open>root\<close>,
  \<open>genMerklePath\<close>). The spec's Accumulator has a fixed depth, a fixed branching factor and
  an empty-hash constant; its state is the ordered sequence of inserted leaf hashes; leaves
  sit left to right from position 0; an unfilled position counts as the empty-hash
  constant when internal nodes are computed; the root is a function of the inserted
  sequence. The hash of a node's children is a parameter (\<open>hashFunc\<close> of the environment).
\<close>

record IncrementalQuinTree =
  depth :: nat
  zeroValue :: BigInt
  leavesPerNode :: nat
  leaves :: "BigInt list"

definition new_IncrementalQuinTree :: "nat \<Rightarrow> BigInt \<Rightarrow> nat \<Rightarrow> IncrementalQuinTree" where
  "new_IncrementalQuinTree d z k = \<lparr>depth = d, zeroValue = z, leavesPerNode = k, leaves = []\<rparr>"

text \<open>\<open>insert(leafHash)\<close>: appends one leaf.\<close>

definition tree_insert :: "BigInt \<Rightarrow> IncrementalQuinTree \<Rightarrow> IncrementalQuinTree" where
  "tree_insert lh t = t\<lparr>leaves := leaves t @ [lh]\<rparr>"

text \<open>The hash at position \<open>j\<close> of level \<open>l\<close> (level 0 holds the leaves, level \<open>depth\<close> the
  root): an inserted leaf, the empty-hash constant at an unfilled position, and above that
  the hash of the node's children.\<close>

fun node :: "(BigInt list \<Rightarrow> BigInt) \<Rightarrow> IncrementalQuinTree \<Rightarrow> nat \<Rightarrow> nat \<Rightarrow> BigInt" where
  "node H t 0 j = (if j < length (leaves t) then leaves t ! j else zeroValue t)"
| "node H t (Suc l) j =
     H (map (\<lambda>c. node H t l (leavesPerNode t * j + c)) [0..<leavesPerNode t])"

text \<open>\<open>root()\<close>.\<close>

definition tree_root :: "(BigInt list \<Rightarrow> BigInt) \<Rightarrow> IncrementalQuinTree \<Rightarrow> BigInt" where
  "tree_root H t = node H t (depth t) 0"

text \<open>The hash of a subtree of height \<open>l\<close> with no leaf in it.\<close>

fun zeros :: "(BigInt list \<Rightarrow> BigInt) \<Rightarrow> IncrementalQuinTree \<Rightarrow> nat \<Rightarrow> BigInt" where
  "zeros H t 0 = zeroValue t"
| "zeros H t (Suc l) = H (replicate (leavesPerNode t) (zeros H t l))"

text \<open>\<open>genPath(index)\<close> for an inserted index: at each level below the root, the hashes of
  the other children of the parent (the siblings) and the position among the children
  (the branch selector).\<close>

definition path_siblings :: "(BigInt list \<Rightarrow> BigInt) \<Rightarrow> IncrementalQuinTree \<Rightarrow> nat \<Rightarrow> nat \<Rightarrow> BigInt list" where
  "path_siblings H t i l =
     (let k = leavesPerNode t;
          pos = i div k ^ l;
          children = map (\<lambda>c. node H t l (k * (pos div k) + c)) [0..<k]
      in take (pos mod k) children @ drop (Suc (pos mod k)) children)"

definition path_selector :: "IncrementalQuinTree \<Rightarrow> nat \<Rightarrow> nat \<Rightarrow> nat" where
  "path_selector t i l = (i div leavesPerNode t ^ l) mod leavesPerNode t"

definition genPath :: "(BigInt list \<Rightarrow> BigInt) \<Rightarrow> IncrementalQuinTree \<Rightarrow> nat \<Rightarrow> MerkleProof" where
  "genPath H t i =
     \<lparr>pathElements = map (path_siblings H t i) [0..<depth t],
      indices = map (path_selector t i) [0..<depth t]\<rparr>"

text \<open>\<open>tree.genMerklePath(index)\<close> as the script calls it. The spec leaves the result
  undefined for an index that was not inserted (the script can also pass \<open>undefined\<close>):
  there the result is whatever the library does, a parameter.\<close>

definition genMerklePath :: "'l env \<Rightarrow> IncrementalQuinTree \<Rightarrow> nat option \<Rightarrow> error + MerkleProof" where
  "genMerklePath env t idx =
     (case idx of
        None \<Rightarrow> genMerklePath_undefined env idx
      | Some i \<Rightarrow>
          if i < length (leaves t) then Inr (genPath (hashFunc env) t i)
          else genMerklePath_undefined env idx)"

text \<open>Leaf-to-root recomputation along a path: at each level the current hash is put
  among the siblings at the position the branch selector gives, and the children are
  hashed.\<close>

fun recompute_root :: "(BigInt list \<Rightarrow> BigInt) \<Rightarrow> BigInt \<Rightarrow> (BigInt list \<times> nat) list \<Rightarrow> BigInt" where
  "recompute_root H cur [] = cur"
| "recompute_root H cur ((sibs, sel) # ps) =
     recompute_root H (H (take sel sibs @ [cur] @ drop sel sibs)) ps"

section \<open>The withdrawal script\<close>

text \<open>\<open>getDepositHistory\<close>: queries the contract for all \<open>NewLeaf\<close> events, converts each
  with \<open>Leaf.fromSol\<close> and hashes each with \<open>poseidonHash\<close> (the Poseidon instance of
  \<open>buildPoseidon\<close> is part of the parameter \<open>Leaf_poseidonHash\<close>).\<close>

definition getDepositHistory :: "'l env \<Rightarrow> ('l, Leaf list \<times> BigInt list) io" where
  "getDepositHistory env =
     io_bind (console_log [LStr ''== Fetching deposit history'']) (\<lambda>_.
     io_bind (await_read QueryFilter_NewLeaf (queryFilter_NewLeaf env)) (\<lambda>newLeafEvents.
       let leafHistory = map (\<lambda>e. Leaf_fromSol env (args_lf e)) newLeafEvents;
           leafHashes = map (\<lambda>lf. Leaf_poseidonHash env lf) leafHistory
       in
     io_bind (console_log [LStr ''- Retrieved '', LNat (length leafHashes), LStr '' leaves'']) (\<lambda>_.
     io_bind (console_log [LStr ''=='']) (\<lambda>_.
     io_return (leafHistory, leafHashes)))))"

text \<open>The \<open>reduce\<close> of \<open>checkLeafOwnership\<close>: the accumulator array \<open>a\<close>, the running index
  \<open>i\<close>, and \<open>a.push(i)\<close> when the leaf is owned.\<close>

fun reduce_owned :: "(Leaf \<Rightarrow> bool) \<Rightarrow> nat list \<Rightarrow> nat \<Rightarrow> Leaf list \<Rightarrow> nat list" where
  "reduce_owned isOwned a i [] = a"
| "reduce_owned isOwned a i (lf # lfs) =
     reduce_owned isOwned (if isOwned lf then a @ [i] else a) (Suc i) lfs"

text \<open>\<open>isOwned\<close> of the callback: \<open>lf.checkQDerivation\<close> with the treasury's private key
  of the process environment.\<close>

definition isOwned :: "'l env \<Rightarrow> Leaf \<Rightarrow> bool" where
  "isOwned env lf = Leaf_checkQDerivation env lf (TREASURY_PRIVKEY env)"

definition checkLeafOwnership :: "'l env \<Rightarrow> Leaf list \<Rightarrow> ('l, nat list) io" where
  "checkLeafOwnership env leafHistory =
     io_bind (console_log [LStr ''== Checking leaves for ownership'']) (\<lambda>_.
       let owned = reduce_owned (isOwned env) [] 0 leafHistory
       in
     io_bind (console_log [LStr ''- Found '', LNat (length owned),
                           LStr '' leaves recoverable by the privKey.'']) (\<lambda>_.
     io_bind (console_log [LStr ''=='']) (\<lambda>_.
     io_return owned)))"

text \<open>\<open>genGroth16Proof\<close>. The leaf is \<open>leafHistory[...]\<close> and may be \<open>undefined\<close>; then
  \<open>lf.base10()\<close> raises a TypeError before the prover is called.\<close>

definition genGroth16Proof ::
  "'l env \<Rightarrow> Leaf option \<Rightarrow> nat option \<Rightarrow> BigInt \<Rightarrow> string \<Rightarrow> MerkleProof
     \<Rightarrow> ('l, Groth16Proof \<times> WithdrawPubSignals) io" where
  "genGroth16Proof env lf lfIdx root treasuryPriv inclusionProof =
     io_bind (console_log [LStr ''== Generating proof'']) (\<lambda>_.
       case lf of
         None \<Rightarrow> io_throw TypeError
       | Some lfBase10 \<Rightarrow>
           io_bind (let inp = \<lparr>pi_v = lf_v lfBase10, pi_root = root, pi_leafIndex = lfIdx,
                               pi_P = lf_P lfBase10, pi_Q = lf_Q lfBase10,
                               pi_treasuryPriv = treasuryPriv,
                               pi_pathIndex = indices inclusionProof,
                               pi_pathElements = pathElements inclusionProof\<rparr>
                    in await_ext (FullProve inp WASM PROV_KEY)
                         (groth16_fullProve env inp WASM PROV_KEY)) (\<lambda>(proof, publicSignals).
           io_bind (console_log [LStr ''- Success'']) (\<lambda>_.
           io_bind (console_log [LStr ''=='']) (\<lambda>_.
           io_return (proof, publicSignals)))))"

text \<open>\<open>proveSanityCheck\<close>: verifies client-side and logs the outcome; it returns nothing.\<close>

definition proveSanityCheck :: "'l env \<Rightarrow> Groth16Proof \<Rightarrow> WithdrawPubSignals \<Rightarrow> ('l, unit) io" where
  "proveSanityCheck env prf pubSigs =
     io_bind (console_log [LStr ''== Running sanity check, verifying proof client-side'']) (\<lambda>_.
     io_bind (console_log [LStr ''- Proof:'', LVec prf]) (\<lambda>_.
     io_bind (console_log [LStr ''- Public Signals:'', LVec pubSigs]) (\<lambda>_.
     io_bind (await_ext (ReadFileSync VERIF_KEY) (readFile_vKey env VERIF_KEY)) (\<lambda>vKey.
     io_bind (await_ext (Groth16_verify vKey pubSigs prf)
                (groth16_verify env vKey pubSigs prf)) (\<lambda>res.
     io_bind (if res = True then console_log [LStr ''- Verification OK'']
              else console_log [LStr ''- Invalid proof'']) (\<lambda>_.
     console_log [LStr ''=='']))))))"

text \<open>\<open>sendProofTx\<close>: posts the proof on-chain; the first argument of \<open>withdraw\<close> is the
  constant \<open>LEAF_IDX\<close>. The script defines it and never calls it.\<close>

definition sendProofTx :: "'l env \<Rightarrow> Groth16Proof \<Rightarrow> WithdrawPubSignals \<Rightarrow> ('l, unit) io" where
  "sendProofTx env prf pubSigs =
     io_bind (console_log [LStr ''== Sending tx with withdrawal proof'']) (\<lambda>_.
     io_bind (await_read Signer_getBalance (signer_getBalance env)) (\<lambda>before.
     io_bind (console_log [LStr ''Manager balance BEFORE:'', LInt before]) (\<lambda>_.
     io_bind (\<lambda>w. (Utils_exportCallDataGroth16 env prf pubSigs, w)) (\<lambda>formattedProof.
     io_bind (console_log [LStr ''Proof:'', LCalldata formattedProof]) (\<lambda>_.
     io_bind (await_write
                (Contract_withdraw LEAF_IDX (cd_a formattedProof) (cd_b formattedProof)
                   (cd_c formattedProof) (cd_input formattedProof))
                (contract_withdraw env LEAF_IDX formattedProof)) (\<lambda>result.
     io_bind (console_log [LTxResult]) (\<lambda>_.
     io_bind (await_read Signer_getBalance (signer_getBalance env)) (\<lambda>after.
     io_bind (console_log [LStr ''Manager balance AFTER:'', LInt after]) (\<lambda>_.
     console_log [LStr ''==''])))))))))"

text \<open>\<open>reconstructMerkleTree\<close>: a new tree of depth \<open>TREE_DEPTH\<close> with the empty-hash
  constant and two leaves per node, every leaf hash inserted in order; the comparison with
  the contract's root is logged and the tree is returned.\<close>

definition reconstructMerkleTree :: "'l env \<Rightarrow> BigInt list \<Rightarrow> ('l, IncrementalQuinTree) io" where
  "reconstructMerkleTree env leafHashes =
     io_bind (console_log [LStr ''== Reconstructing Merkle tree'']) (\<lambda>_.
       let tree = fold tree_insert leafHashes
                    (new_IncrementalQuinTree TREE_DEPTH (NOTHING_UP_MY_SLEEVE env) 2)
       in
     io_bind (console_log [LStr ''- Root:'', LInt (tree_root (hashFunc env) tree)]) (\<lambda>_.
     io_bind (await_read Contract_root (contract_root env)) (\<lambda>contractRoot.
     io_bind (console_log [LStr ''- Same as root stored on contract?'',
                           LBool (tree_root (hashFunc env) tree = contractRoot)]) (\<lambda>_.
     io_bind (console_log [LStr ''=='']) (\<lambda>_.
     io_return tree)))))"

text \<open>The entry point. The call of \<open>sendProofTx\<close> is commented out in the script.\<close>

definition main :: "'l env \<Rightarrow> ('l, unit) io" where
  "main env =
     io_bind (getDepositHistory env) (\<lambda>(leafHistory, leafHashes).
     io_bind (checkLeafOwnership env leafHistory) (\<lambda>ownedLeaves.
     io_bind (reconstructMerkleTree env leafHashes) (\<lambda>tree.
     io_bind (await_ext (GenMerklePath (js_index ownedLeaves LEAF_IDX))
                (genMerklePath env tree (js_index ownedLeaves LEAF_IDX))) (\<lambda>merkleProof.
     io_bind (genGroth16Proof env
                (js_index_opt leafHistory (js_index ownedLeaves LEAF_IDX))
                (js_index ownedLeaves LEAF_IDX)
                (tree_root (hashFunc env) tree)
                (TREASURY_PRIVKEY env)
                merkleProof) (\<lambda>(proof, publicSignals).
     io_bind (proveSanityCheck env proof publicSignals) (\<lambda>_.
     emit (ProcessExit 0)))))))"

text \<open>A run of the script from a ledger state, with nothing done yet.\<close>

definition run :: "'l env \<Rightarrow> 'l \<Rightarrow> (error + unit) \<times> 'l world" where
  "run env l = main env \<lparr>ledger = l, trace = []\<rparr>"

section \<open>Notions used in the statements\<close>

text \<open>What the script computes from the events the ledger returned: the owned indices
  and the root of the reconstructed tree.\<close>

definition script_owned :: "'l env \<Rightarrow> Event list \<Rightarrow> nat list" where
  "script_owned env evs =
     reduce_owned (isOwned env) [] 0 (map (\<lambda>e. Leaf_fromSol env (args_lf e)) evs)"

definition script_tree :: "'l env \<Rightarrow> Event list \<Rightarrow> IncrementalQuinTree" where
  "script_tree env evs =
     fold tree_insert (map (\<lambda>e. Leaf_poseidonHash env (Leaf_fromSol env (args_lf e))) evs)
       (new_IncrementalQuinTree TREE_DEPTH (NOTHING_UP_MY_SLEEVE env) 2)"

text \<open>A computation is read-only when, from every world, it leaves the ledger as it was
  and only appends actions that are not the state-mutating \<open>withdraw\<close>.\<close>

definition read_only :: "('l, 'a) io \<Rightarrow> bool" where
  "read_only m =
     (\<forall>w. ledger (snd (m w)) = ledger w
        \<and> (\<exists>evs. trace (snd (m w)) = trace w @ evs \<and> list_all (\<lambda>c. \<not> is_withdraw c) evs))"

section \<open>An example ledger and its collaborators\<close>

text \<open>
  A small world on which the definitions can be run. The ledger is the list of deposits
  emitted so far and the list of leaf indices already withdrawn. The hash is a toy
  polynomial; a leaf is owned by a key when \<open>Q\<close> is \<open>P\<close> scaled by the length of the key;
  the contract computes its root as the script does; the prover returns a fixed proof with
  the root, the leaf index and the value as public signals, and the verifier accepts
  exactly that proof.
\<close>

type_synonym example_ledger = "SolLeaf list \<times> nat list"

definition example_hash :: "BigInt list \<Rightarrow> BigInt" where
  "example_hash xs = foldr (\<lambda>x acc. x + 3 * acc) xs 1"

definition example_fromSol :: "SolLeaf option \<Rightarrow> Leaf" where
  "example_fromSol s =
     (case s of
        None \<Rightarrow> \<lparr>lf_P = (0, 0), lf_Q = (0, 0), lf_v = 0\<rparr>
      | Some (p, q, val) \<Rightarrow> \<lparr>lf_P = p, lf_Q = q, lf_v = val\<rparr>)"

definition example_leafHash :: "Leaf \<Rightarrow> BigInt" where
  "example_leafHash lf =
     example_hash [fst (lf_P lf), snd (lf_P lf), fst (lf_Q lf), snd (lf_Q lf), lf_v lf]"

definition example_owned :: "Leaf \<Rightarrow> string \<Rightarrow> bool" where
  "example_owned lf priv =
     (lf_Q lf = (int (length priv) * fst (lf_P lf), int (length priv) * snd (lf_P lf)))"

definition example_root :: "example_ledger \<Rightarrow> BigInt" where
  "example_root l =
     tree_root example_hash
       (fold tree_insert (map (\<lambda>s. example_leafHash (example_fromSol (Some s))) (fst l))
          (new_IncrementalQuinTree 32 7 2))"

definition example_env :: "example_ledger env" where
  "example_env = \<lparr>
     queryFilter_NewLeaf = (\<lambda>l. Inr (map (\<lambda>s. \<lparr>args_lf = Some s\<rparr>) (fst l))),
     contract_root = (\<lambda>l. Inr (example_root l)),
     contract_withdraw = (\<lambda>i cd l.
        if i < length (fst l) \<and> i \<notin> set (snd l) then Inr (fst l, snd l @ [i])
        else Inl (Thrown ''revert'')),
     signer_getBalance = (\<lambda>l. Inr (int (length (snd l)))),
     Leaf_fromSol = example_fromSol,
     Leaf_poseidonHash = example_leafHash,
     Leaf_checkQDerivation = example_owned,
     TREASURY_PRIVKEY = ''ab'',
     NOTHING_UP_MY_SLEEVE = 7,
     hashFunc = example_hash,
     genMerklePath_undefined = (\<lambda>idx.
        case idx of
          None \<Rightarrow> Inr \<lparr>pathElements = [], indices = []\<rparr>
        | Some i \<Rightarrow> Inl (Thrown ''The leaf index is too large'')),
     groth16_fullProve = (\<lambda>inp wasm zkey.
        Inr ([1, 2, 3],
             [pi_root inp, (case pi_leafIndex inp of None \<Rightarrow> 0 | Some i \<Rightarrow> int i), pi_v inp])),
     readFile_vKey = (\<lambda>path. Inr [42]),
     groth16_verify = (\<lambda>vk sigs prf. Inr (vk = [42] \<and> prf = [1, 2, 3])),
     Utils_exportCallDataGroth16 = (\<lambda>prf sigs.
        Inr \<lparr>cd_a = take 1 prf, cd_b = [drop 1 prf], cd_c = drop 2 prf, cd_input = sigs\<rparr>)
   \<rparr>"

text \<open>Three deposits; the key \<open>ab\<close> owns the first and the third.\<close>

definition example_deposits :: example_ledger where
  "example_deposits =
     ([((1, 2), (2, 4), 10), ((3, 4), (5, 5), 20), ((5, 6), (10, 12), 30)], [])"

text \<open>The same collaborators with a verifier that rejects every proof.\<close>

definition rejecting_env :: "example_ledger env" where
  "rejecting_env = example_env\<lparr>groth16_verify := (\<lambda>vk sigs prf. Inr False)\<rparr>"

text \<open>The same collaborators with a contract whose root differs from the script's.\<close>

definition mismatch_env :: "example_ledger env" where
  "mismatch_env = example_env\<lparr>contract_root := (\<lambda>l. Inr (example_root l + 1))\<rparr>"

text \<open>The leaf index of a \<open>withdraw\<close> call and the leaf index given to the prover.\<close>

fun withdraw_index :: "call \<Rightarrow> nat option" where
  "withdraw_index (Contract_withdraw i a b c inp) = Some i"
| "withdraw_index _ = None"


section \<open>Basic facts\<close>

lemmas io_defs = io_bind_def io_return_def io_throw_def emit_def console_log_def
  await_read_def await_ext_def await_write_def

text \<open>The \<open>reduce\<close> collects, behind what it was given, the positions (counted from \<open>i\<close>)
  of the owned leaves, in order.\<close>

lemma reduce_owned_eq:
  "reduce_owned f a i xs = a @ filter (\<lambda>j. f (xs ! (j - i))) [i..<i + length xs]"
proof (induction xs arbitrary: a i)
  case Nil
  then show ?case by simp
next
  case (Cons x xs)
  define m where "m = Suc i + length xs"
  have shift: "filter (\<lambda>j. f ((x # xs) ! (j - i))) [Suc i..<m]
             = filter (\<lambda>j. f (xs ! (j - Suc i))) [Suc i..<m]"
  proof (rule filter_cong)
    fix j assume "j \<in> set [Suc i..<m]"
    then have "j - i = Suc (j - Suc i)" by auto
    then show "f ((x # xs) ! (j - i)) = f (xs ! (j - Suc i))" by simp
  qed simp
  have upt: "[i..<i + length (x # xs)] = i # [Suc i..<m]"
    unfolding m_def by (subst upt_rec) simp
  have "reduce_owned f a i (x # xs)
        = (if f x then a @ [i] else a) @ filter (\<lambda>j. f (xs ! (j - Suc i))) [Suc i..<m]"
    unfolding m_def by (simp add: Cons.IH del: upt_Suc)
  also have "\<dots> = a @ filter (\<lambda>j. f ((x # xs) ! (j - i))) (i # [Suc i..<m])"
    by (simp add: shift)
  finally show ?case unfolding upt .
qed

lemma reduce_owned_filter:
  "reduce_owned f [] 0 xs = filter (\<lambda>i. f (xs ! i)) [0..<length xs]"
  by (simp add: reduce_owned_eq)

lemma fold_tree_insert: "fold tree_insert xs t = t\<lparr>leaves := leaves t @ xs\<rparr>"
  by (induction xs arbitrary: t) (simp_all add: tree_insert_def)

subsection \<open>What each stage returns and appends\<close>

lemma getDepositHistory_eq:
  "getDepositHistory env w =
     (case queryFilter_NewLeaf env (ledger w) of
        Inl e \<Rightarrow> (Inl e, w\<lparr>trace := trace w @
                     [ConsoleLog [LStr ''== Fetching deposit history''], QueryFilter_NewLeaf]\<rparr>)
      | Inr evs \<Rightarrow>
          (Inr (map (\<lambda>e. Leaf_fromSol env (args_lf e)) evs,
                map (\<lambda>e. Leaf_poseidonHash env (Leaf_fromSol env (args_lf e))) evs),
           w\<lparr>trace := trace w @
                [ConsoleLog [LStr ''== Fetching deposit history''], QueryFilter_NewLeaf,
                 ConsoleLog [LStr ''- Retrieved '', LNat (length evs), LStr '' leaves''],
                 ConsoleLog [LStr ''=='']]\<rparr>))"
  by (simp add: getDepositHistory_def io_defs Let_def comp_def split: sum.splits)

lemma checkLeafOwnership_eq:
  "checkLeafOwnership env leafHistory w =
     (Inr (reduce_owned (isOwned env) [] 0 leafHistory),
      w\<lparr>trace := trace w @
         [ConsoleLog [LStr ''== Checking leaves for ownership''],
          ConsoleLog [LStr ''- Found '',
                      LNat (length (reduce_owned (isOwned env) [] 0 leafHistory)),
                      LStr '' leaves recoverable by the privKey.''],
          ConsoleLog [LStr ''=='']]\<rparr>)"
  by (simp add: checkLeafOwnership_def io_defs Let_def)

lemma reconstructMerkleTree_eq:
  "reconstructMerkleTree env leafHashes w =
     (let tree = \<lparr>depth = TREE_DEPTH, zeroValue = NOTHING_UP_MY_SLEEVE env, leavesPerNode = 2,
                  leaves = leafHashes\<rparr>;
          pre = [ConsoleLog [LStr ''== Reconstructing Merkle tree''],
                 ConsoleLog [LStr ''- Root:'', LInt (tree_root (hashFunc env) tree)],
                 Contract_root]
      in case contract_root env (ledger w) of
           Inl e \<Rightarrow> (Inl e, w\<lparr>trace := trace w @ pre\<rparr>)
         | Inr contractRoot \<Rightarrow>
             (Inr tree,
              w\<lparr>trace := trace w @ pre @
                   [ConsoleLog [LStr ''- Same as root stored on contract?'',
                                LBool (tree_root (hashFunc env) tree = contractRoot)],
                    ConsoleLog [LStr ''=='']]\<rparr>))"
  by (simp add: reconstructMerkleTree_def io_defs Let_def fold_tree_insert
      new_IncrementalQuinTree_def split: sum.splits)

section \<open>The ledger reader\<close>

text \<open>
  C5. When the ledger answers the event query, \<open>getDepositHistory\<close> returns two sequences
  as long as the event list, in the order of the events: at every position the leaf is
  \<open>Leaf.fromSol\<close> of the event at that position and the hash is the Poseidon hash of the
  leaf at that position, computed from that leaf alone. The ledger is left as it was.
\<close>

theorem getDepositHistory_hashes:
  assumes "queryFilter_NewLeaf env (ledger w) = Inr evs"
  shows "\<exists>leafHistory leafHashes w'.
           getDepositHistory env w = (Inr (leafHistory, leafHashes), w')
         \<and> ledger w' = ledger w
         \<and> length leafHistory = length evs
         \<and> length leafHashes = length leafHistory
         \<and> (\<forall>i < length evs.
               leafHistory ! i = Leaf_fromSol env (args_lf (evs ! i))
             \<and> leafHashes ! i = Leaf_poseidonHash env (leafHistory ! i))"
  using assms by (simp add: getDepositHistory_eq)

theorem getDepositHistory_hashes_witness:
  "queryFilter_NewLeaf example_env (ledger \<lparr>ledger = example_deposits, trace = []\<rparr>)
     = Inr [\<lparr>args_lf = Some ((1, 2), (2, 4), 10)\<rparr>, \<lparr>args_lf = Some ((3, 4), (5, 5), 20)\<rparr>,
            \<lparr>args_lf = Some ((5, 6), (10, 12), 30)\<rparr>]
   \<and> (\<exists>leafHistory leafHashes w'.
           getDepositHistory example_env \<lparr>ledger = example_deposits, trace = []\<rparr>
             = (Inr (leafHistory, leafHashes), w')
         \<and> length leafHistory = 3 \<and> length leafHashes = 3
         \<and> leafHistory ! 2 = \<lparr>lf_P = (5, 6), lf_Q = (10, 12), lf_v = 30\<rparr>
         \<and> leafHashes ! 2 = Leaf_poseidonHash example_env (leafHistory ! 2))"
proof -
  have q: "queryFilter_NewLeaf example_env (ledger \<lparr>ledger = example_deposits, trace = []\<rparr>)
     = Inr [\<lparr>args_lf = Some ((1, 2), (2, 4), 10)\<rparr>, \<lparr>args_lf = Some ((3, 4), (5, 5), 20)\<rparr>,
            \<lparr>args_lf = Some ((5, 6), (10, 12), 30)\<rparr>]"
    by (simp add: example_env_def example_deposits_def)
  from getDepositHistory_hashes [OF q] obtain leafHistory leafHashes w'
    where r: "getDepositHistory example_env \<lparr>ledger = example_deposits, trace = []\<rparr>
                = (Inr (leafHistory, leafHashes), w')"
      and n: "length leafHistory = 3" "length leafHashes = length leafHistory"
      and at: "\<forall>i < 3. leafHistory ! i
                  = Leaf_fromSol example_env
                      (args_lf ([\<lparr>args_lf = Some ((1, 2), (2, 4), 10)\<rparr>,
                                 \<lparr>args_lf = Some ((3, 4), (5, 5), 20)\<rparr>,
                                 \<lparr>args_lf = Some ((5, 6), (10, 12), 30)\<rparr>] ! i))
                \<and> leafHashes ! i = Leaf_poseidonHash example_env (leafHistory ! i)"
    by auto
  from at have "leafHistory ! 2 = \<lparr>lf_P = (5, 6), lf_Q = (10, 12), lf_v = 30\<rparr>"
    and "leafHashes ! 2 = Leaf_poseidonHash example_env (leafHistory ! 2)"
    by (simp_all add: example_env_def example_fromSol_def)
  with q r n show ?thesis by simp
qed

section \<open>The ownership scanner\<close>

text \<open>
  C6. \<open>checkLeafOwnership\<close> returns (never an error) exactly the indices of the leaves for
  which the ownership relation holds for the key: every such index and no other, in
  strictly ascending order. The result is a function of the history and the key alone, the
  ledger is left as it was, and the result for the empty history is the empty sequence.
\<close>

theorem checkLeafOwnership_exact:
  "fst (checkLeafOwnership env leafHistory w)
     = Inr (filter (\<lambda>i. isOwned env (leafHistory ! i)) [0..<length leafHistory])
   \<and> set (filter (\<lambda>i. isOwned env (leafHistory ! i)) [0..<length leafHistory])
     = {i. i < length leafHistory \<and> isOwned env (leafHistory ! i)}
   \<and> sorted_wrt (<) (filter (\<lambda>i. isOwned env (leafHistory ! i)) [0..<length leafHistory])
   \<and> ledger (snd (checkLeafOwnership env leafHistory w)) = ledger w
   \<and> fst (checkLeafOwnership env [] w) = Inr []"
proof -
  have "sorted_wrt (<) [0..<length leafHistory]"
    by (simp add: sorted_wrt_upt)
  then have "sorted_wrt (<)
      (filter (\<lambda>i. isOwned env (leafHistory ! i)) [0..<length leafHistory])"
    by (rule sorted_wrt_filter)
  moreover have "set (filter (\<lambda>i. isOwned env (leafHistory ! i)) [0..<length leafHistory])
     = {i. i < length leafHistory \<and> isOwned env (leafHistory ! i)}"
    by auto
  ultimately show ?thesis
    by (simp add: checkLeafOwnership_eq reduce_owned_filter)
qed

text \<open>On the example: of the three deposits the key owns the first and the third.\<close>

lemma checkLeafOwnership_example:
  "fst (checkLeafOwnership example_env
          [\<lparr>lf_P = (1, 2), lf_Q = (2, 4), lf_v = 10\<rparr>, \<lparr>lf_P = (3, 4), lf_Q = (5, 5), lf_v = 20\<rparr>,
           \<lparr>lf_P = (5, 6), lf_Q = (10, 12), lf_v = 30\<rparr>] w) = Inr [0, 2]"
  by (simp add: checkLeafOwnership_eq isOwned_def example_env_def example_owned_def)

section \<open>The accumulator\<close>

subsection \<open>Unfilled subtrees\<close>

text \<open>A subtree that starts at or behind the end of the inserted sequence hashes to the
  empty-subtree hash of its height.\<close>

lemma node_unfilled:
  "length (leaves t) \<le> j * leavesPerNode t ^ l \<Longrightarrow> node H t l j = zeros H t l"
proof (induction l arbitrary: j)
  case 0
  then show ?case by simp
next
  case (Suc l)
  have "node H t l (leavesPerNode t * j + c) = zeros H t l" for c
  proof (rule Suc.IH)
    have "j * leavesPerNode t ^ Suc l \<le> (leavesPerNode t * j + c) * leavesPerNode t ^ l"
      by (simp add: algebra_simps)
    with Suc.prems show "length (leaves t) \<le> (leavesPerNode t * j + c) * leavesPerNode t ^ l"
      by linarith
  qed
  then show ?case by (simp add: map_replicate_const)
qed

subsection \<open>Paths\<close>

text \<open>Putting a child back among its siblings gives the list of all children.\<close>

lemma children_restore:
  assumes "s < length cs"
  shows "take s (take s cs @ drop (Suc s) cs) @ [cs ! s] @ drop s (take s cs @ drop (Suc s) cs)
         = cs"
proof -
  have "length (take s cs) = s" using assms by simp
  then have "take s (take s cs @ drop (Suc s) cs) = take s cs"
        and "drop s (take s cs @ drop (Suc s) cs) = drop (Suc s) cs"
    by simp_all
  then show ?thesis using assms by (simp add: id_take_nth_drop [symmetric])
qed

text \<open>One level of the recomputation: from the ancestor of leaf \<open>i\<close> at level \<open>l\<close> to its
  ancestor at level \<open>l + 1\<close>.\<close>

lemma recompute_step:
  assumes k: "0 < leavesPerNode t"
  shows "H (take (path_selector t i l) (path_siblings H t i l)
            @ [node H t l (i div leavesPerNode t ^ l)]
            @ drop (path_selector t i l) (path_siblings H t i l))
         = node H t (Suc l) (i div leavesPerNode t ^ Suc l)"
proof -
  let ?k = "leavesPerNode t"
  let ?pos = "i div ?k ^ l"
  let ?cs = "map (\<lambda>c. node H t l (?k * (?pos div ?k) + c)) [0..<?k]"
  have sel: "?pos mod ?k < length ?cs" using k by simp
  have cur: "?cs ! (?pos mod ?k) = node H t l ?pos"
    using k by simp
  have par: "?pos div ?k = i div ?k ^ Suc l"
    by (metis div_mult2_eq mult.commute power_Suc)
  have "take (?pos mod ?k) (take (?pos mod ?k) ?cs @ drop (Suc (?pos mod ?k)) ?cs)
          @ [?cs ! (?pos mod ?k)]
          @ drop (?pos mod ?k) (take (?pos mod ?k) ?cs @ drop (Suc (?pos mod ?k)) ?cs) = ?cs"
    by (rule children_restore [OF sel])
  then show ?thesis
    unfolding path_selector_def path_siblings_def Let_def cur [symmetric] par [symmetric]
    by simp
qed

lemma recompute_levels:
  assumes k: "0 < leavesPerNode t"
  shows "recompute_root H (node H t a (i div leavesPerNode t ^ a))
           (map (\<lambda>l. (path_siblings H t i l, path_selector t i l)) [a..<a + n])
         = node H t (a + n) (i div leavesPerNode t ^ (a + n))"
proof (induction n arbitrary: a)
  case 0
  then show ?case by simp
next
  case (Suc n)
  have upt: "[a..<a + Suc n] = a # [Suc a..<Suc a + n]"
    by (subst upt_rec) simp
  show ?case
    unfolding upt using Suc.IH [of "Suc a"] recompute_step [OF k, of H i a]
    by simp
qed

lemma zip_genPath:
  "zip (pathElements (genPath H t i)) (indices (genPath H t i))
   = map (\<lambda>l. (path_siblings H t i l, path_selector t i l)) [0..<depth t]"
  by (simp add: genPath_def zip_map_map map2_map_map [symmetric] zip_same_conv_map)

text \<open>
  C8. For the index \<open>i\<close> of an inserted leaf (a position of the tree: below the number of
  inserted leaves and below the tree's capacity), \<open>genMerklePath\<close> returns a path with one
  entry per level, and recomputing from the leaf at \<open>i\<close> along the path's siblings and
  branch selectors gives exactly the accumulator's root.
\<close>

theorem genMerklePath_recomputes_root:
  assumes "i < length (leaves t)" and "i < leavesPerNode t ^ depth t"
    and "0 < leavesPerNode t"
  shows "\<exists>p. genMerklePath env t (Some i) = Inr p
           \<and> length (pathElements p) = depth t \<and> length (indices p) = depth t
           \<and> recompute_root (hashFunc env) (leaves t ! i) (zip (pathElements p) (indices p))
               = tree_root (hashFunc env) t"
proof -
  let ?H = "hashFunc env"
  have "recompute_root ?H (node ?H t 0 (i div leavesPerNode t ^ 0))
           (map (\<lambda>l. (path_siblings ?H t i l, path_selector t i l)) [0..<0 + depth t])
         = node ?H t (0 + depth t) (i div leavesPerNode t ^ (0 + depth t))"
    by (rule recompute_levels [OF assms(3)])
  then have "recompute_root ?H (leaves t ! i)
               (zip (pathElements (genPath ?H t i)) (indices (genPath ?H t i)))
             = tree_root ?H t"
    using assms by (simp add: zip_genPath tree_root_def)
  moreover have "genMerklePath env t (Some i) = Inr (genPath ?H t i)"
    using assms(1) by (simp add: genMerklePath_def)
  moreover have "length (pathElements (genPath ?H t i)) = depth t"
    and "length (indices (genPath ?H t i)) = depth t"
    by (simp_all add: genPath_def)
  ultimately show ?thesis by simp
qed

text \<open>A tree of depth 3 with three leaves: the path of leaf 2 and the root.\<close>

lemma small_tree_values:
  "genPath example_hash \<lparr>depth = 3, zeroValue = 7, leavesPerNode = 2, leaves = [10, 20, 30]\<rparr> 2
     = \<lparr>pathElements = [[7], [79], [157]], indices = [0, 1, 0]\<rparr>"
  "tree_root example_hash \<lparr>depth = 3, zeroValue = 7, leavesPerNode = 2, leaves = [10, 20, 30]\<rparr>
     = 748"
  "recompute_root example_hash 30 [([7], 0), ([79], 1), ([157], 0)] = 748"
  by code_simp+

theorem genMerklePath_recomputes_root_witness:
  "2 < length (leaves \<lparr>depth = 3, zeroValue = 7, leavesPerNode = 2, leaves = [10, 20, 30]\<rparr>)
   \<and> (2 :: nat) < leavesPerNode \<lparr>depth = 3, zeroValue = 7, leavesPerNode = 2, leaves = [10, 20, 30]\<rparr>
         ^ depth \<lparr>depth = 3, zeroValue = 7, leavesPerNode = 2, leaves = [10, 20, 30]\<rparr>
   \<and> 0 < leavesPerNode \<lparr>depth = 3, zeroValue = 7, leavesPerNode = 2, leaves = [10, 20, 30]\<rparr>
   \<and> genMerklePath example_env
        \<lparr>depth = 3, zeroValue = 7, leavesPerNode = 2, leaves = [10, 20, 30]\<rparr> (Some 2)
       = Inr \<lparr>pathElements = [[7], [79], [157]], indices = [0, 1, 0]\<rparr>
   \<and> recompute_root example_hash 30 [([7], 0), ([79], 1), ([157], 0)]
       = tree_root example_hash
           \<lparr>depth = 3, zeroValue = 7, leavesPerNode = 2, leaves = [10, 20, 30]\<rparr>"
proof -
  let ?t = "\<lparr>depth = 3, zeroValue = 7, leavesPerNode = 2, leaves = [10, 20, 30]\<rparr>"
  have h: "2 < length (leaves ?t)" "(2 :: nat) < leavesPerNode ?t ^ depth ?t"
    "0 < leavesPerNode ?t"
    by simp_all
  have p: "genMerklePath example_env ?t (Some 2)
             = Inr \<lparr>pathElements = [[7], [79], [157]], indices = [0, 1, 0]\<rparr>"
    by (simp add: genMerklePath_def small_tree_values(1) example_env_def)
  from genMerklePath_recomputes_root [OF h, of example_env] p
  have "recompute_root example_hash 30 [([7], 0), ([79], 1), ([157], 0)]
          = tree_root example_hash ?t"
    by (simp add: example_env_def)
  with h p show ?thesis by simp
qed

subsection \<open>Reconstruction\<close>

text \<open>
  C7. The root of the reconstructed accumulator is a function of the inserted sequence:
  two reconstructions from the same leaf hashes, in whatever worlds and with whatever
  other collaborators, as long as the hash and the empty-hash constant are the same,
  hold the same leaves and have the same root.
\<close>

theorem root_function_of_sequence:
  assumes "fst (reconstructMerkleTree env1 leafHashes w1) = Inr t1"
    and "fst (reconstructMerkleTree env2 leafHashes w2) = Inr t2"
    and "hashFunc env1 = hashFunc env2"
    and "NOTHING_UP_MY_SLEEVE env1 = NOTHING_UP_MY_SLEEVE env2"
  shows "tree_root (hashFunc env1) t1 = tree_root (hashFunc env2) t2
       \<and> leaves t1 = leafHashes \<and> leaves t2 = leafHashes"
  using assms
  by (auto simp: reconstructMerkleTree_eq Let_def split: sum.splits)

theorem root_function_of_sequence_witness:
  "fst (reconstructMerkleTree example_env [10, 20, 30] \<lparr>ledger = example_deposits, trace = []\<rparr>)
     = Inr \<lparr>depth = 32, zeroValue = 7, leavesPerNode = 2, leaves = [10, 20, 30]\<rparr>
   \<and> fst (reconstructMerkleTree rejecting_env [10, 20, 30]
            \<lparr>ledger = ([], [0]), trace = [QueryFilter_NewLeaf]\<rparr>)
     = Inr \<lparr>depth = 32, zeroValue = 7, leavesPerNode = 2, leaves = [10, 20, 30]\<rparr>
   \<and> hashFunc example_env = hashFunc rejecting_env
   \<and> NOTHING_UP_MY_SLEEVE example_env = NOTHING_UP_MY_SLEEVE rejecting_env
   \<and> tree_root (hashFunc example_env)
         \<lparr>depth = 32, zeroValue = 7, leavesPerNode = 2, leaves = [10, 20, 30]\<rparr>
     = tree_root (hashFunc rejecting_env)
         \<lparr>depth = 32, zeroValue = 7, leavesPerNode = 2, leaves = [10, 20, 30]\<rparr>"
proof -
  let ?t = "\<lparr>depth = 32, zeroValue = 7, leavesPerNode = 2, leaves = [10, 20, 30]\<rparr>"
  have a: "fst (reconstructMerkleTree example_env [10, 20, 30]
                  \<lparr>ledger = example_deposits, trace = []\<rparr>) = Inr ?t"
    by (simp add: reconstructMerkleTree_eq example_env_def TREE_DEPTH_def Let_def)
  have b: "fst (reconstructMerkleTree rejecting_env [10, 20, 30]
                  \<lparr>ledger = ([], [0]), trace = [QueryFilter_NewLeaf]\<rparr>) = Inr ?t"
    by (simp add: reconstructMerkleTree_eq rejecting_env_def example_env_def TREE_DEPTH_def Let_def)
  have c: "hashFunc example_env = hashFunc rejecting_env"
    and d: "NOTHING_UP_MY_SLEEVE example_env = NOTHING_UP_MY_SLEEVE rejecting_env"
    by (simp_all add: rejecting_env_def)
  from root_function_of_sequence [OF a b c d] a b c d show ?thesis by simp
qed

text \<open>
  C9. Whenever the ledger answers the root query, \<open>reconstructMerkleTree\<close> returns a tree
  of depth 32 with two leaves per node and the nothing-up-my-sleeve constant as empty
  hash, holding the given leaf hashes. Every unfilled leaf position counts as that
  constant, every subtree without a leaf hashes to the empty-subtree hash of its height,
  and the root is the node of level 32 at position 0, for every length of the sequence
  (for the empty sequence it is the empty-subtree hash of height 32).
\<close>

theorem reconstructMerkleTree_shape:
  assumes "contract_root env (ledger w) = Inr r"
  shows "\<exists>t w'. reconstructMerkleTree env leafHashes w = (Inr t, w')
     \<and> depth t = 32 \<and> leavesPerNode t = 2 \<and> zeroValue t = NOTHING_UP_MY_SLEEVE env
     \<and> leaves t = leafHashes
     \<and> (\<forall>j \<ge> length leafHashes. node (hashFunc env) t 0 j = NOTHING_UP_MY_SLEEVE env)
     \<and> (\<forall>l j. length leafHashes \<le> j * 2 ^ l
            \<longrightarrow> node (hashFunc env) t l j = zeros (hashFunc env) t l)
     \<and> tree_root (hashFunc env) t = node (hashFunc env) t 32 0
     \<and> (leafHashes = [] \<longrightarrow> tree_root (hashFunc env) t = zeros (hashFunc env) t 32)"
proof -
  let ?t = "\<lparr>depth = TREE_DEPTH, zeroValue = NOTHING_UP_MY_SLEEVE env, leavesPerNode = 2,
             leaves = leafHashes\<rparr>"
  have unf: "node (hashFunc env) ?t l j = zeros (hashFunc env) ?t l"
    if "length leafHashes \<le> j * 2 ^ l" for l j
    using that by (intro node_unfilled) simp
  have "reconstructMerkleTree env leafHashes w
          = (Inr ?t, snd (reconstructMerkleTree env leafHashes w))"
    using assms by (simp add: reconstructMerkleTree_eq Let_def)
  moreover have "\<forall>j \<ge> length leafHashes. node (hashFunc env) ?t 0 j = NOTHING_UP_MY_SLEEVE env"
    by simp
  moreover have "tree_root (hashFunc env) ?t = node (hashFunc env) ?t 32 0"
    by (simp add: tree_root_def TREE_DEPTH_def)
  moreover have "leafHashes = [] \<longrightarrow> tree_root (hashFunc env) ?t = zeros (hashFunc env) ?t 32"
    using unf [of 0 32] by (simp add: tree_root_def TREE_DEPTH_def)
  ultimately show ?thesis
    using unf
    by (intro exI [of _ ?t] exI [of _ "snd (reconstructMerkleTree env leafHashes w)"])
      (simp add: TREE_DEPTH_def)
qed

theorem reconstructMerkleTree_shape_witness:
  "contract_root example_env (ledger \<lparr>ledger = example_deposits, trace = []\<rparr>)
     = Inr (example_root example_deposits)
   \<and> (\<exists>t w'. reconstructMerkleTree example_env [10, 20, 30]
                 \<lparr>ledger = example_deposits, trace = []\<rparr> = (Inr t, w')
        \<and> depth t = 32 \<and> leavesPerNode t = 2 \<and> zeroValue t = 7 \<and> leaves t = [10, 20, 30]
        \<and> node example_hash t 0 3 = 7
        \<and> node example_hash t 2 1 = zeros example_hash t 2
        \<and> zeros example_hash t 2 = 157)"
proof -
  have h: "contract_root example_env (ledger \<lparr>ledger = example_deposits, trace = []\<rparr>)
             = Inr (example_root example_deposits)"
    by (simp add: example_env_def)
  from reconstructMerkleTree_shape [OF h, of "[10, 20, 30]"]
  obtain t w' where r: "reconstructMerkleTree example_env [10, 20, 30]
                          \<lparr>ledger = example_deposits, trace = []\<rparr> = (Inr t, w')"
    and s: "depth t = 32" "leavesPerNode t = 2" "zeroValue t = NOTHING_UP_MY_SLEEVE example_env"
      "leaves t = [10, 20, 30]"
    and z: "\<forall>j \<ge> length [10, 20, 30 :: int]. node (hashFunc example_env) t 0 j
              = NOTHING_UP_MY_SLEEVE example_env"
    and e: "\<forall>l j. length [10, 20, 30 :: int] \<le> j * 2 ^ l
              \<longrightarrow> node (hashFunc example_env) t l j = zeros (hashFunc example_env) t l"
    by blast
  have c: "hashFunc example_env = example_hash" "NOTHING_UP_MY_SLEEVE example_env = 7"
    by (simp_all add: example_env_def)
  from z have "node example_hash t 0 3 = 7" by (simp add: c)
  moreover from e [rule_format, of 1 2] have "node example_hash t 2 1 = zeros example_hash t 2"
    by (simp add: c)
  moreover have "zeros example_hash t 2 = 157"
    using s by (simp add: c example_hash_def numeral_2_eq_2)
  ultimately show ?thesis using h r s by (auto simp: c)
qed

section \<open>The pipeline\<close>

subsection \<open>Read-only computations\<close>

lemma read_only_return: "read_only (io_return a)"
  by (simp add: read_only_def io_return_def)

lemma read_only_throw: "read_only (io_throw e)"
  by (simp add: read_only_def io_throw_def)

lemma read_only_emit: "\<not> is_withdraw c \<Longrightarrow> read_only (emit c)"
  by (simp add: read_only_def emit_def)

lemma read_only_console_log: "read_only (console_log vals)"
  by (simp add: console_log_def read_only_emit)

lemma read_only_await_read: "\<not> is_withdraw c \<Longrightarrow> read_only (await_read c q)"
  by (simp add: read_only_def await_read_def)

lemma read_only_await_ext: "\<not> is_withdraw c \<Longrightarrow> read_only (await_ext c r)"
  by (simp add: read_only_def await_ext_def)

lemma read_only_bind:
  assumes m: "read_only m" and f: "\<And>a. read_only (f a)"
  shows "read_only (io_bind m f)"
  unfolding read_only_def
proof
  fix w
  obtain r w' where mw: "m w = (r, w')" by (cases "m w")
  from m have "ledger (snd (m w)) = ledger w
      \<and> (\<exists>evs. trace (snd (m w)) = trace w @ evs \<and> list_all (\<lambda>c. \<not> is_withdraw c) evs)"
    unfolding read_only_def by (rule spec)
  with mw obtain evs where l1: "ledger w' = ledger w"
    and t1: "trace w' = trace w @ evs" and ok1: "list_all (\<lambda>c. \<not> is_withdraw c) evs"
    by auto
  show "ledger (snd (io_bind m f w)) = ledger w
      \<and> (\<exists>evs. trace (snd (io_bind m f w)) = trace w @ evs
             \<and> list_all (\<lambda>c. \<not> is_withdraw c) evs)"
  proof (cases r)
    case (Inl e)
    with mw l1 t1 ok1 show ?thesis by (simp add: io_bind_def)
  next
    case (Inr a)
    from f [of a] have "ledger (snd (f a w')) = ledger w'
      \<and> (\<exists>evs. trace (snd (f a w')) = trace w' @ evs \<and> list_all (\<lambda>c. \<not> is_withdraw c) evs)"
      unfolding read_only_def by (rule spec)
    then obtain evs' where l2: "ledger (snd (f a w')) = ledger w'"
      and t2: "trace (snd (f a w')) = trace w' @ evs'"
      and ok2: "list_all (\<lambda>c. \<not> is_withdraw c) evs'"
      by auto
    have eq: "io_bind m f w = f a w'" using mw Inr by (simp add: io_bind_def)
    have "list_all (\<lambda>c. \<not> is_withdraw c) (evs @ evs')" using ok1 ok2 by simp
    moreover have "trace (snd (f a w')) = trace w @ (evs @ evs')" using t1 t2 by simp
    ultimately have "\<exists>evs. trace (snd (f a w')) = trace w @ evs
        \<and> list_all (\<lambda>c. \<not> is_withdraw c) evs"
      by blast
    with l1 l2 show ?thesis unfolding eq by simp
  qed
qed

lemmas read_only_intros = read_only_bind read_only_return read_only_throw read_only_emit
  read_only_console_log read_only_await_read read_only_await_ext

lemma read_only_getDepositHistory: "read_only (getDepositHistory env)"
  unfolding getDepositHistory_def Let_def by (intro read_only_intros) simp

lemma read_only_checkLeafOwnership: "read_only (checkLeafOwnership env leafHistory)"
  unfolding checkLeafOwnership_def Let_def by (intro read_only_intros)

lemma read_only_reconstructMerkleTree: "read_only (reconstructMerkleTree env leafHashes)"
  unfolding reconstructMerkleTree_def Let_def by (intro read_only_intros) simp

lemma read_only_genGroth16Proof:
  "read_only (genGroth16Proof env lf lfIdx root treasuryPriv inclusionProof)"
proof (cases lf)
  case None
  then show ?thesis
    unfolding genGroth16Proof_def by (simp add: read_only_intros)
next
  case (Some lfBase10)
  then show ?thesis
    unfolding genGroth16Proof_def Let_def
    by (simp add: split_def) (intro read_only_intros, simp)
qed

lemma read_only_proveSanityCheck: "read_only (proveSanityCheck env prf pubSigs)"
  unfolding proveSanityCheck_def
  by (intro read_only_intros) (simp_all add: read_only_console_log)

lemma read_only_main: "read_only (main env)"
  unfolding main_def split_def
  by (intro read_only_bind read_only_getDepositHistory read_only_checkLeafOwnership
      read_only_reconstructMerkleTree read_only_genGroth16Proof read_only_proveSanityCheck
      read_only_await_ext read_only_emit) simp_all

lemma run_read_only:
  "ledger (snd (run env l)) = l \<and> list_all (\<lambda>c. \<not> is_withdraw c) (trace (snd (run env l)))"
proof -
  from read_only_main [of env]
  have "ledger (snd (main env \<lparr>ledger = l, trace = []\<rparr>)) = ledger \<lparr>ledger = l, trace = []\<rparr>
      \<and> (\<exists>evs. trace (snd (main env \<lparr>ledger = l, trace = []\<rparr>))
                  = trace \<lparr>ledger = l, trace = []\<rparr> @ evs
             \<and> list_all (\<lambda>c. \<not> is_withdraw c) evs)"
    unfolding read_only_def by (rule spec)
  then show ?thesis by (auto simp: run_def)
qed

lemma genGroth16Proof_eq:
  "genGroth16Proof env lf lfIdx root treasuryPriv inclusionProof w =
     (case lf of
        None \<Rightarrow> (Inl TypeError, w\<lparr>trace := trace w @ [ConsoleLog [LStr ''== Generating proof'']]\<rparr>)
      | Some lfBase10 \<Rightarrow>
          (let inp = \<lparr>pi_v = lf_v lfBase10, pi_root = root, pi_leafIndex = lfIdx,
                      pi_P = lf_P lfBase10, pi_Q = lf_Q lfBase10,
                      pi_treasuryPriv = treasuryPriv,
                      pi_pathIndex = indices inclusionProof,
                      pi_pathElements = pathElements inclusionProof\<rparr>;
               pre = [ConsoleLog [LStr ''== Generating proof''], FullProve inp WASM PROV_KEY]
           in case groth16_fullProve env inp WASM PROV_KEY of
                Inl e \<Rightarrow> (Inl e, w\<lparr>trace := trace w @ pre\<rparr>)
              | Inr bundle \<Rightarrow>
                  (Inr bundle,
                   w\<lparr>trace := trace w @ pre @
                        [ConsoleLog [LStr ''- Success''], ConsoleLog [LStr ''=='']]\<rparr>)))"
  by (simp add: genGroth16Proof_def io_defs Let_def split: sum.splits option.splits prod.splits)

lemma proveSanityCheck_eq:
  "proveSanityCheck env prf pubSigs w =
     (let pre = [ConsoleLog [LStr ''== Running sanity check, verifying proof client-side''],
                 ConsoleLog [LStr ''- Proof:'', LVec prf],
                 ConsoleLog [LStr ''- Public Signals:'', LVec pubSigs],
                 ReadFileSync VERIF_KEY]
      in case readFile_vKey env VERIF_KEY of
           Inl e \<Rightarrow> (Inl e, w\<lparr>trace := trace w @ pre\<rparr>)
         | Inr vKey \<Rightarrow>
             (case groth16_verify env vKey pubSigs prf of
                Inl e \<Rightarrow> (Inl e, w\<lparr>trace := trace w @ pre @ [Groth16_verify vKey pubSigs prf]\<rparr>)
              | Inr res \<Rightarrow>
                  (Inr (),
                   w\<lparr>trace := trace w @ pre @
                        [Groth16_verify vKey pubSigs prf,
                         ConsoleLog [LStr (if res then ''- Verification OK''
                                           else ''- Invalid proof'')],
                         ConsoleLog [LStr ''=='']]\<rparr>)))"
  by (simp add: proveSanityCheck_def io_defs Let_def split: sum.splits)

lemmas stage_eqs = getDepositHistory_eq checkLeafOwnership_eq reconstructMerkleTree_eq
  genGroth16Proof_eq proveSanityCheck_eq

subsection \<open>The script never submits\<close>

lemmas script_defs = run_def main_def getDepositHistory_def checkLeafOwnership_def
  reconstructMerkleTree_def genGroth16Proof_def proveSanityCheck_def genMerklePath_def
  js_index_def js_index_opt_def LEAF_IDX_def

lemmas example_defs = example_env_def example_deposits_def example_fromSol_def
  example_owned_def example_root_def isOwned_def tree_insert_def new_IncrementalQuinTree_def
  TREE_DEPTH_def

text \<open>
  C10. Every run of the script leaves the ledger as it found it: no action of a run is the
  state-mutating \<open>withdraw\<close>, and the contract interactions of a run are among the two
  read-only queries, the \<open>NewLeaf\<close> event filter and \<open>root()\<close>.
\<close>

theorem main_leaves_ledger_unchanged:
  "ledger (snd (run env l)) = l
   \<and> list_all (\<lambda>c. \<not> is_withdraw c) (trace (snd (run env l)))
   \<and> set (filter is_contract_call (trace (snd (run env l))))
       \<subseteq> {QueryFilter_NewLeaf, Contract_root}"
proof -
  have nw: "list_all (\<lambda>c. \<not> is_withdraw c) (trace (snd (run env l)))"
    and led: "ledger (snd (run env l)) = l"
    using run_read_only [of env l] by simp_all
  have "c = QueryFilter_NewLeaf \<or> c = Contract_root"
    if "is_contract_call c" "\<not> is_withdraw c" for c
    using that by (cases c) simp_all
  with nw have "set (filter is_contract_call (trace (snd (run env l))))
       \<subseteq> {QueryFilter_NewLeaf, Contract_root}"
    by (auto simp: list_all_iff)
  with nw led show ?thesis by simp
qed

theorem main_leaves_ledger_unchanged_witness:
  "ledger (snd (run example_env example_deposits)) = example_deposits
   \<and> list_all (\<lambda>c. \<not> is_withdraw c) (trace (snd (run example_env example_deposits)))
   \<and> filter is_contract_call (trace (snd (run example_env example_deposits)))
       = [QueryFilter_NewLeaf, Contract_root]"
proof -
  have "filter is_contract_call (trace (snd (run example_env example_deposits)))
       = [QueryFilter_NewLeaf, Contract_root]"
    by (simp add: script_defs io_defs example_defs Let_def)
  with main_leaves_ledger_unchanged [of example_env example_deposits] show ?thesis by simp
qed

lemma failed_verification_is_logged:
  assumes "Groth16_verify vKey pubSigs prf \<in> set (trace (snd (run env l)))"
    and "groth16_verify env vKey pubSigs prf = Inr False"
  shows "ConsoleLog [LStr ''- Invalid proof''] \<in> set (trace (snd (run env l)))
       \<and> fst (run env l) = Inr ()"
  using assms
  by (auto simp: run_def main_def stage_eqs genMerklePath_def io_bind_def await_ext_def emit_def
      Let_def split: sum.splits option.splits prod.splits if_splits)

text \<open>
  C1. In every run in which the verifier was called on a proof and returned false, no
  action of the run is a \<open>withdraw\<close> call and the ledger is left as it was: the failure is
  logged, the run ends without an exception, and nothing is submitted.
\<close>

theorem failed_verification_never_submits:
  assumes "Groth16_verify vKey pubSigs prf \<in> set (trace (snd (run env l)))"
    and "groth16_verify env vKey pubSigs prf = Inr False"
  shows "list_all (\<lambda>c. \<not> is_withdraw c) (trace (snd (run env l)))
       \<and> ledger (snd (run env l)) = l
       \<and> ConsoleLog [LStr ''- Invalid proof''] \<in> set (trace (snd (run env l)))
       \<and> fst (run env l) = Inr ()"
  using run_read_only [of env l] failed_verification_is_logged [OF assms] by simp

theorem failed_verification_never_submits_witness:
  "Groth16_verify [42] [example_root example_deposits, 2, 30] [1, 2, 3]
     \<in> set (trace (snd (run rejecting_env example_deposits)))
   \<and> groth16_verify rejecting_env [42] [example_root example_deposits, 2, 30] [1, 2, 3]
       = Inr False
   \<and> ConsoleLog [LStr ''- Invalid proof''] \<in> set (trace (snd (run rejecting_env example_deposits)))
   \<and> list_all (\<lambda>c. \<not> is_withdraw c) (trace (snd (run rejecting_env example_deposits)))
   \<and> ledger (snd (run rejecting_env example_deposits)) = example_deposits
   \<and> fst (run rejecting_env example_deposits) = Inr ()"
proof -
  have a: "Groth16_verify [42] [example_root example_deposits, 2, 30] [1, 2, 3]
     \<in> set (trace (snd (run rejecting_env example_deposits)))"
    by (simp add: script_defs io_defs rejecting_env_def example_defs Let_def)
  have b: "groth16_verify rejecting_env [42] [example_root example_deposits, 2, 30] [1, 2, 3]
       = Inr False"
    by (simp add: rejecting_env_def)
  from failed_verification_never_submits [OF a b] a b show ?thesis by simp
qed

subsection \<open>What the script does on a root mismatch\<close>

lemma script_owned_bound:
  assumes "js_index (script_owned env evs) LEAF_IDX = Some i"
  shows "i < length evs"
proof -
  have "script_owned env evs
          = filter (\<lambda>j. isOwned env (map (\<lambda>e. Leaf_fromSol env (args_lf e)) evs ! j))
              [0..<length evs]"
    by (simp add: script_owned_def reduce_owned_filter)
  moreover from assms have "i \<in> set (script_owned env evs)"
    by (auto simp: js_index_def split: if_splits)
  ultimately show ?thesis by auto
qed

lemma script_tree_eq:
  "script_tree env evs =
     \<lparr>depth = TREE_DEPTH, zeroValue = NOTHING_UP_MY_SLEEVE env, leavesPerNode = 2,
      leaves = map (\<lambda>e. Leaf_poseidonHash env (Leaf_fromSol env (args_lf e))) evs\<rparr>"
  by (simp add: script_tree_def fold_tree_insert new_IncrementalQuinTree_def)

text \<open>
  C2, in the form that holds on the script. When the ledger answers both queries and a
  second owned record exists, the run logs whether the reconstructed root equals the
  ledger's root and then calls the proving engine with the reconstructed root and the
  index of that record, whether the two roots agree or not.
\<close>

theorem root_mismatch_only_logged:
  assumes "queryFilter_NewLeaf env l = Inr evs"
    and "contract_root env l = Inr contractRoot"
    and "js_index (script_owned env evs) LEAF_IDX = Some i"
  shows "ConsoleLog [LStr ''- Same as root stored on contract?'',
                     LBool (tree_root (hashFunc env) (script_tree env evs) = contractRoot)]
           \<in> set (trace (snd (run env l)))
       \<and> (\<exists>inp. FullProve inp WASM PROV_KEY \<in> set (trace (snd (run env l)))
                \<and> pi_root inp = tree_root (hashFunc env) (script_tree env evs)
                \<and> pi_leafIndex inp = Some i)"
proof -
  from assms(3) have i: "i < length evs" by (rule script_owned_bound)
  from assms(3) have o: "js_index (reduce_owned (isOwned env) [] 0
            (map (\<lambda>e. Leaf_fromSol env (args_lf e)) evs)) LEAF_IDX = Some i"
    by (simp add: script_owned_def)
  let ?inp = "\<lparr>pi_v = lf_v (Leaf_fromSol env (args_lf (evs ! i))),
               pi_root = tree_root (hashFunc env) (script_tree env evs),
               pi_leafIndex = Some i,
               pi_P = lf_P (Leaf_fromSol env (args_lf (evs ! i))),
               pi_Q = lf_Q (Leaf_fromSol env (args_lf (evs ! i))),
               pi_treasuryPriv = TREASURY_PRIVKEY env,
               pi_pathIndex = indices (genPath (hashFunc env) (script_tree env evs) i),
               pi_pathElements = pathElements (genPath (hashFunc env) (script_tree env evs) i)\<rparr>"
  have "ConsoleLog [LStr ''- Same as root stored on contract?'',
                     LBool (tree_root (hashFunc env) (script_tree env evs) = contractRoot)]
           \<in> set (trace (snd (run env l)))
       \<and> FullProve ?inp WASM PROV_KEY \<in> set (trace (snd (run env l)))"
    using assms(1,2) i o
    by (simp add: run_def main_def stage_eqs genMerklePath_def io_bind_def await_ext_def
        emit_def js_index_opt_def js_index_def [of "map f evs" for f] script_tree_eq Let_def
        split: sum.splits)
  then show ?thesis by (intro conjI exI [of _ ?inp]) simp_all
qed

theorem root_mismatch_only_logged_witness:
  "queryFilter_NewLeaf mismatch_env example_deposits
     = Inr [\<lparr>args_lf = Some ((1, 2), (2, 4), 10)\<rparr>, \<lparr>args_lf = Some ((3, 4), (5, 5), 20)\<rparr>,
            \<lparr>args_lf = Some ((5, 6), (10, 12), 30)\<rparr>]
   \<and> contract_root mismatch_env example_deposits = Inr (example_root example_deposits + 1)
   \<and> js_index (script_owned mismatch_env
         [\<lparr>args_lf = Some ((1, 2), (2, 4), 10)\<rparr>, \<lparr>args_lf = Some ((3, 4), (5, 5), 20)\<rparr>,
          \<lparr>args_lf = Some ((5, 6), (10, 12), 30)\<rparr>]) LEAF_IDX = Some 2
   \<and> ConsoleLog [LStr ''- Same as root stored on contract?'', LBool False]
         \<in> set (trace (snd (run mismatch_env example_deposits)))
   \<and> (\<exists>inp. FullProve inp WASM PROV_KEY \<in> set (trace (snd (run mismatch_env example_deposits)))
            \<and> pi_root inp = example_root example_deposits
            \<and> pi_leafIndex inp = Some 2)"
proof -
  let ?evs = "[\<lparr>args_lf = Some ((1, 2), (2, 4), 10)\<rparr>, \<lparr>args_lf = Some ((3, 4), (5, 5), 20)\<rparr>,
               \<lparr>args_lf = Some ((5, 6), (10, 12), 30)\<rparr>]"
  have a: "queryFilter_NewLeaf mismatch_env example_deposits = Inr ?evs"
    by (simp add: mismatch_env_def example_env_def example_deposits_def)
  have b: "contract_root mismatch_env example_deposits = Inr (example_root example_deposits + 1)"
    by (simp add: mismatch_env_def)
  have c: "js_index (script_owned mismatch_env ?evs) LEAF_IDX = Some 2"
    by (simp add: script_owned_def js_index_def LEAF_IDX_def isOwned_def mismatch_env_def
        example_env_def example_fromSol_def example_owned_def)
  have r: "tree_root (hashFunc mismatch_env) (script_tree mismatch_env ?evs)
             = example_root example_deposits"
    by (simp add: script_tree_def example_root_def mismatch_env_def example_env_def
        example_deposits_def TREE_DEPTH_def)
  from root_mismatch_only_logged [OF a b c] a b c show ?thesis
    unfolding r by simp
qed

text \<open>
  C2 as the spec states it fails on the example with the mismatching contract: the roots
  differ (the script itself logs \<open>false\<close> for the comparison), and the run goes on to call
  the proving engine and ends without an exception.
\<close>

theorem root_mismatch_counterexample:
  "ConsoleLog [LStr ''- Root:'', LInt (example_root example_deposits)]
         \<in> set (trace (snd (run mismatch_env example_deposits)))
   \<and> contract_root mismatch_env example_deposits = Inr (example_root example_deposits + 1)
   \<and> ConsoleLog [LStr ''- Same as root stored on contract?'', LBool False]
         \<in> set (trace (snd (run mismatch_env example_deposits)))
   \<and> list_ex is_fullProve (trace (snd (run mismatch_env example_deposits)))
   \<and> fst (run mismatch_env example_deposits) = Inr ()"
  by (simp add: script_defs io_defs mismatch_env_def example_defs Let_def)

subsection \<open>What the script does when too few records are owned\<close>

text \<open>
  C3, in the form that holds on the script. When the ledger answers both queries and the
  scanner finds no owned record (or only one, so that there is no entry \<open>LEAF_IDX\<close>),
  the run reconstructs the accumulator, queries the ledger's root and calls
  \<open>genMerklePath\<close> with an undefined index; it then aborts, with the library's exception or with the TypeError of the
  undefined leaf, before the proving engine is called.
\<close>

theorem too_few_owned_aborts_after_path_generation:
  assumes "queryFilter_NewLeaf env l = Inr evs"
    and "contract_root env l = Inr contractRoot"
    and "length (script_owned env evs) \<le> LEAF_IDX"
  shows "Contract_root \<in> set (trace (snd (run env l)))
       \<and> GenMerklePath None \<in> set (trace (snd (run env l)))
       \<and> list_all (\<lambda>c. \<not> is_fullProve c) (trace (snd (run env l)))
       \<and> fst (run env l)
           = (case genMerklePath_undefined env None of
                Inl e \<Rightarrow> Inl e
              | Inr p \<Rightarrow> Inl TypeError)"
proof -
  from assms(3) have o: "js_index (reduce_owned (isOwned env) [] 0
            (map (\<lambda>e. Leaf_fromSol env (args_lf e)) evs)) LEAF_IDX = None"
    by (simp add: script_owned_def js_index_def)
  show ?thesis
    using assms(1,2) o
    by (simp add: run_def main_def stage_eqs genMerklePath_def io_bind_def await_ext_def
        emit_def js_index_opt_def Let_def split: sum.splits)
qed

theorem too_few_owned_aborts_after_path_generation_witness:
  "queryFilter_NewLeaf example_env ([], []) = Inr []
   \<and> contract_root example_env ([], []) = Inr (example_root ([], []))
   \<and> length (script_owned example_env []) \<le> LEAF_IDX
   \<and> Contract_root \<in> set (trace (snd (run example_env ([], []))))
   \<and> GenMerklePath None \<in> set (trace (snd (run example_env ([], []))))
   \<and> list_all (\<lambda>c. \<not> is_fullProve c) (trace (snd (run example_env ([], []))))
   \<and> fst (run example_env ([], [])) = Inl TypeError"
proof -
  have a: "queryFilter_NewLeaf example_env ([], []) = Inr []"
    and b: "contract_root example_env ([], []) = Inr (example_root ([], []))"
    and c: "length (script_owned example_env []) \<le> LEAF_IDX"
    and d: "genMerklePath_undefined example_env None = Inr \<lparr>pathElements = [], indices = []\<rparr>"
    by (simp_all add: example_env_def script_owned_def)
  from too_few_owned_aborts_after_path_generation [OF a b c] a b c show ?thesis
    by (simp add: d)
qed

text \<open>
  C3 as the spec states it fails on the empty history: the scanner returns the empty
  sequence, and the run goes on to reconstruct the accumulator and to call the
  accumulator's path generation; it ends with a TypeError.
\<close>

theorem empty_history_counterexample:
  "fst (checkLeafOwnership example_env [] \<lparr>ledger = ([], []), trace = []\<rparr>) = Inr []
   \<and> ConsoleLog [LStr ''== Reconstructing Merkle tree'']
        \<in> set (trace (snd (run example_env ([], []))))
   \<and> list_ex is_genMerklePath (trace (snd (run example_env ([], []))))
   \<and> fst (run example_env ([], [])) = Inl TypeError"
  by (simp add: script_defs io_defs example_defs Let_def)

subsection \<open>The leaf index of the submission\<close>

lemma sendProofTx_eq:
  "sendProofTx env prf pubSigs w =
     (let pre = [ConsoleLog [LStr ''== Sending tx with withdrawal proof''], Signer_getBalance]
      in case signer_getBalance env (ledger w) of
           Inl e \<Rightarrow> (Inl e, w\<lparr>trace := trace w @ pre\<rparr>)
         | Inr before \<Rightarrow>
             (case Utils_exportCallDataGroth16 env prf pubSigs of
                Inl e \<Rightarrow>
                  (Inl e, w\<lparr>trace := trace w @ pre
                             @ [ConsoleLog [LStr ''Manager balance BEFORE:'', LInt before]]\<rparr>)
              | Inr formattedProof \<Rightarrow>
                  (let sent = pre
                         @ [ConsoleLog [LStr ''Manager balance BEFORE:'', LInt before],
                            ConsoleLog [LStr ''Proof:'', LCalldata formattedProof],
                            Contract_withdraw LEAF_IDX (cd_a formattedProof) (cd_b formattedProof)
                              (cd_c formattedProof) (cd_input formattedProof)]
                   in case contract_withdraw env LEAF_IDX formattedProof (ledger w) of
                        Inl e \<Rightarrow> (Inl e, w\<lparr>trace := trace w @ sent\<rparr>)
                      | Inr l' \<Rightarrow>
                          (case signer_getBalance env l' of
                             Inl e \<Rightarrow>
                               (Inl e, w\<lparr>ledger := l',
                                         trace := trace w @ sent
                                           @ [ConsoleLog [LTxResult], Signer_getBalance]\<rparr>)
                           | Inr after \<Rightarrow>
                               (Inr (), w\<lparr>ledger := l',
                                          trace := trace w @ sent
                                            @ [ConsoleLog [LTxResult], Signer_getBalance,
                                               ConsoleLog [LStr ''Manager balance AFTER:'',
                                                           LInt after],
                                               ConsoleLog [LStr ''=='']]\<rparr>)))))"
  by (simp add: sendProofTx_def io_defs Let_def split: sum.splits)

text \<open>Whatever bundle it is given, \<open>sendProofTx\<close> submits the leaf index \<open>LEAF_IDX\<close>.\<close>

lemma sendProofTx_index:
  "List.map_filter withdraw_index (trace (snd (sendProofTx env prf pubSigs w)))
     = List.map_filter withdraw_index (trace w)
     \<or> List.map_filter withdraw_index (trace (snd (sendProofTx env prf pubSigs w)))
     = List.map_filter withdraw_index (trace w) @ [LEAF_IDX]"
  by (simp add: sendProofTx_eq Let_def List.map_filter_def split: sum.splits)





end
